theory Spec2Isabelle
  imports Complex_Main
begin

section \<open>The calibration pipeline of \<^verbatim>\<open>calibrate.py\<close>\<close>

text \<open>
  The program is one function, \<^verbatim>\<open>main\<close>: it opens a frame source (a glob of image
  files or a video), builds the table of object points of the chessboard, runs a sampling
  loop that offers frames to OpenCV's corner detector and accumulates the accepted views,
  optionally pickles the accumulated lists, and hands them to OpenCV's solver.

  OpenCV, \<^verbatim>\<open>glob\<close> and the file system are not part of the program. They are taken as
  a parameter, the record \<open>cv2\<close> below, and every theorem holds for every value of it.
  Three library calls can raise in the model: \<^verbatim>\<open>cv2.cvtColor\<close> on an image that
  \<^verbatim>\<open>cv2.imread\<close> could not read, the detector, and the solver. The others (refining the
  corners, drawing and writing the debug image, writing the corners file and the output
  file) are taken to return. A video is a finite sequence of frames.
\<close>

subsection \<open>Data\<close>

text \<open>
  Points are arrays of \<^verbatim>\<open>float32\<close>. The only numbers the program computes itself are
  the grid indices of the object points, which are small whole numbers; corner
  coordinates are passed through unchanged. Both are modelled as reals.
  An entry of \<^verbatim>\<open>img_points\<close> has shape \<^verbatim>\<open>(1, n, 2)\<close> and an entry of
  \<^verbatim>\<open>obj_points\<close> has shape \<^verbatim>\<open>(1, n, 3)\<close>; the model drops the leading axis of
  length one and keeps the list of the \<open>n\<close> points.
\<close>

type_synonym point2 = "real \<times> real"
type_synonym point3 = "real \<times> real \<times> real"

text \<open>The exceptions that can end a run: Python's own, and \<^verbatim>\<open>cv2.error\<close>.\<close>

datatype error = ValueError | IndexError | ZeroDivisionError | Cv2Error

text \<open>
  \<^verbatim>\<open>source\<close> is either the list of paths returned by \<^verbatim>\<open>glob\<close> or a
  \<^verbatim>\<open>cv2.VideoCapture\<close>. A capture is modelled by the frames it has still to deliver:
  \<^verbatim>\<open>read()\<close> returns the head and advances, and returns \<^verbatim>\<open>retval = False\<close>
  when none is left.
\<close>

datatype 'img source = Glob "string list" | VideoCapture "'img list"

text \<open>What \<^verbatim>\<open>cv2.calibrateCamera\<close> returns, as far as \<^verbatim>\<open>main\<close> uses it.\<close>

record calibration =
  rms :: real
  camera_matrix :: "real list list"
  dist_coefs :: "real list list"

text \<open>
  The external world. \<open>imread\<close> returns \<open>None\<close> for a file it cannot decode, as
  \<^verbatim>\<open>cv2.imread\<close> does; \<open>video\<close> gives the frames a capture opened on a path delivers,
  in order (none when the file cannot be opened); \<open>shape\<close> is \<^verbatim>\<open>img.shape[:2]\<close>, that is
  (height, width); the detector and the solver may raise.
\<close>

record 'img cv2 =
  glob :: "string \<Rightarrow> string list"
  imread :: "string \<Rightarrow> 'img option"
  video :: "string \<Rightarrow> 'img list"
  cvtColor :: "'img \<Rightarrow> 'img"
  shape :: "'img \<Rightarrow> nat \<times> nat"
  findChessboardCorners :: "'img \<Rightarrow> int \<times> int \<Rightarrow> error + bool \<times> point2 list"
  cornerSubPix :: "'img \<Rightarrow> point2 list \<Rightarrow> point2 list"
  calibrateCamera :: "point3 list list \<Rightarrow> point2 list list \<Rightarrow> nat \<times> nat \<Rightarrow> error + calibration"

text \<open>The parameters of \<^verbatim>\<open>main\<close> (lines 11 to 17), as \<^verbatim>\<open>argparse\<close> delivers them
  (\<open>input_arg\<close> and \<open>output_arg\<close> are the parameters \<^verbatim>\<open>input\<close> and \<^verbatim>\<open>output\<close>).\<close>

record args =
  input_arg :: string
  output_arg :: string
  pattern_size :: "int \<times> int"
  debug_dir :: "string option"
  corners_f :: "string option"
  framestep :: int
  max_frames :: "int option"

text \<open>The lines the program prints.\<close>

datatype line =
  Searching int
  | Ok
  | NotFound
  | FoundFrames nat
  | Calibrating
  | Report calibration  \<comment> \<open>the three lines with the error, the matrix and the coefficients\<close>

text \<open>
  The local variables of \<^verbatim>\<open>main\<close> that the loop reads and writes (lines 27 to 31),
  with the source, the standard output and the debug images written so far
  (frame index and \<^verbatim>\<open>found\<close>).
\<close>

record 'img state =
  source :: "'img source"
  obj_points :: "point3 list list"
  img_points :: "point2 list list"
  h :: nat
  w :: nat
  frame :: int
  used_frames :: nat
  stdout :: "line list"
  debug_images :: "(int \<times> bool) list"

text \<open>What one pass through the body of \<^verbatim>\<open>while True\<close> ends with.\<close>

datatype 'img flow = Continue "'img state" | Break "'img state" | Raise error "'img state"

text \<open>The objects pickled into the corners file, and the effects of a whole run.\<close>

datatype pickled =
  PImgPoints "point2 list list"
  | PObjPoints "point3 list list"
  | PSize "nat \<times> nat"

record run =
  printed :: "line list"
  corners_file :: "(string \<times> pickled list) option"
  output_file :: "(string \<times> calibration) option"
  raised :: "error option"

subsection \<open>The object points (lines 24 and 25)\<close>

text \<open>
  \<^verbatim>\<open>np.zeros((np.prod(pattern_size), 3))\<close> and \<^verbatim>\<open>np.indices(pattern_size)\<close> raise
  \<^verbatim>\<open>ValueError\<close> when a dimension is negative (one of the two does, whatever the sign
  of the product). Otherwise \<^verbatim>\<open>np.indices(pattern_size).T.reshape(-1, 2)\<close> lists the
  pairs (column, row) with the column running fastest, and the third coordinate stays 0.
\<close>

definition pattern_points :: "int \<times> int \<Rightarrow> error + point3 list" where
  "pattern_points ps =
     (if fst ps < 0 \<or> snd ps < 0 then Inl ValueError
      else Inr (concat (map (\<lambda>row. map (\<lambda>col. (real col, real row, 0)) [0..<nat (fst ps)])
                            [0..<nat (snd ps)])))"

subsection \<open>The sampling loop (lines 27 to 67)\<close>

text \<open>Python's \<^verbatim>\<open>xs[i]\<close>: a negative index counts from the end.\<close>

definition getitem :: "'a list \<Rightarrow> int \<Rightarrow> error + 'a" where
  "getitem xs i =
     (if 0 \<le> i \<and> i < int (length xs) then Inr (xs ! nat i)
      else if i < 0 \<and> - int (length xs) \<le> i then Inr (xs ! nat (int (length xs) + i))
      else Inl IndexError)"

text \<open>
  Lines 64 to 67: the debug image of the frame, written when a debug directory is given.
  The pass then falls through to the next iteration.
\<close>

definition write_debug :: "args \<Rightarrow> bool \<Rightarrow> 'img state \<Rightarrow> 'img flow" where
  "write_debug a found st =
     (if debug_dir a \<noteq> None
      then Continue (st\<lparr>debug_images := debug_images st @ [(frame st, found)]\<rparr>)
      else Continue st)"

text \<open>
  Lines 47 to 67, the part of the body that runs on a frame that was not skipped.
  \<open>img\<close> is \<open>None\<close> when \<^verbatim>\<open>cv2.imread\<close> returned \<^verbatim>\<open>None\<close>; then
  \<^verbatim>\<open>cv2.cvtColor\<close> raises.
\<close>

definition search :: "'img cv2 \<Rightarrow> args \<Rightarrow> point3 list \<Rightarrow> 'img option \<Rightarrow> 'img state \<Rightarrow> 'img flow" where
  "search cv a pts img st0 =
     (let st1 = st0\<lparr>stdout := stdout st0 @ [Searching (frame st0)]\<rparr> in
      case img of
        None \<Rightarrow> Raise Cv2Error st1
      | Some colour \<Rightarrow>
          (let gray = cvtColor cv colour;
               st2 = st1\<lparr>h := fst (shape cv gray), w := snd (shape cv gray)\<rparr>
           in case findChessboardCorners cv gray (pattern_size a) of
                Inl e \<Rightarrow> Raise e st2
              | Inr (found, corners) \<Rightarrow>
                  if found then
                    (let st3 = st2\<lparr>used_frames := used_frames st2 + 1,
                                   img_points := img_points st2 @ [cornerSubPix cv gray corners],
                                   obj_points := obj_points st2 @ [pts],
                                   stdout := stdout st2 @ [Ok]\<rparr>
                     in if (case max_frames a of None \<Rightarrow> False
                            | Some m \<Rightarrow> int (used_frames st3) \<ge> m)
                        then Break (st3\<lparr>stdout := stdout st3 @ [FoundFrames (used_frames st3)]\<rparr>)
                        else write_debug a found st3)
                  else write_debug a found (st2\<lparr>stdout := stdout st2 @ [NotFound]\<rparr>)))"

text \<open>
  One pass through the body (lines 33 to 67). For a list the frame counter indexes the
  list; for a capture every pass reads one frame and only the frames whose index is a
  multiple of \<^verbatim>\<open>framestep\<close> go on to the detector. \<^verbatim>\<open>frame % framestep\<close> raises
  when \<^verbatim>\<open>framestep\<close> is 0, and has the sign of the divisor, as \<open>mod\<close> on \<open>int\<close> has.
\<close>

definition iteration :: "'img cv2 \<Rightarrow> args \<Rightarrow> point3 list \<Rightarrow> 'img state \<Rightarrow> 'img flow" where
  "iteration cv a pts st0 =
     (let st = st0\<lparr>frame := frame st0 + 1\<rparr> in
      case source st of
        Glob files \<Rightarrow>
          if frame st = int (length files) then Break st
          else (case getitem files (frame st) of
                  Inl e \<Rightarrow> Raise e st
                | Inr path \<Rightarrow> search cv a pts (imread cv path) st)
      | VideoCapture stream \<Rightarrow>
          (case stream of
             [] \<Rightarrow> Break st
           | img # rest \<Rightarrow>
               (let st' = st\<lparr>source := VideoCapture rest\<rparr> in
                if framestep a = 0 then Raise ZeroDivisionError st'
                else if frame st' mod framestep a \<noteq> 0 then Continue st'
                else search cv a pts (Some img) st')))"

text \<open>
  What is left of the source: the loop ends at the latest when it is used up.
\<close>

fun remaining :: "'img state \<Rightarrow> nat" where
  "remaining st =
     (case source st of
        Glob files \<Rightarrow> nat (int (length files) - frame st)
      | VideoCapture stream \<Rightarrow> length stream)"

lemma getitem_Inr_range:
  "getitem xs i = Inr x \<Longrightarrow> i < int (length xs)"
  by (auto simp: getitem_def split: if_splits)

lemma write_debug_source:
  "write_debug a found st = Continue st' \<Longrightarrow> source st' = source st \<and> frame st' = frame st"
  by (auto simp: write_debug_def split: if_splits)

lemma search_Continue_position:
  "search cv a pts img st = Continue st' \<Longrightarrow> source st' = source st \<and> frame st' = frame st"
  by (auto simp: search_def Let_def split: option.splits sum.splits if_splits
      dest!: write_debug_source)

lemma iteration_Continue_remaining:
  "iteration cv a pts st = Continue st' \<Longrightarrow> remaining st' < remaining st"
  by (auto simp: iteration_def Let_def
      split: source.splits list.splits sum.splits if_splits
      dest!: search_Continue_position getitem_Inr_range)

text \<open>
  The loop: passes through the body until one ends with \<^verbatim>\<open>break\<close> or with an
  exception. The result is the state at that point and the exception, if any.
\<close>

function loop :: "'img cv2 \<Rightarrow> args \<Rightarrow> point3 list \<Rightarrow> 'img state \<Rightarrow> 'img state \<times> error option" where
  "loop cv a pts st =
     (case iteration cv a pts st of
        Continue st' \<Rightarrow> loop cv a pts st'
      | Break st' \<Rightarrow> (st', None)
      | Raise e st' \<Rightarrow> (st', Some e))"
  by pat_completeness auto
termination
  by (relation "measure (\<lambda>(cv, a, pts, st). remaining st)")
    (auto dest: iteration_Continue_remaining)

declare loop.simps [simp del]

subsection \<open>The whole run\<close>

text \<open>Lines 19 to 22: a glob mask is recognised by its \<^verbatim>\<open>*\<close>.\<close>

definition open_source :: "'img cv2 \<Rightarrow> args \<Rightarrow> 'img source" where
  "open_source cv a =
     (if CHR ''*'' \<in> set (input_arg a) then Glob (glob cv (input_arg a))
      else VideoCapture (video cv (input_arg a)))"

text \<open>Lines 27 to 31: the variables before the first pass.\<close>

definition initial :: "'img source \<Rightarrow> 'img state" where
  "initial src =
     \<lparr>source = src, obj_points = [], img_points = [], h = 0, w = 0, frame = - 1,
      used_frames = 0, stdout = [], debug_images = []\<rparr>"

text \<open>Lines 19 to 67 for a table of object points that was built.\<close>

definition sampling :: "'img cv2 \<Rightarrow> args \<Rightarrow> point3 list \<Rightarrow> 'img state \<times> error option" where
  "sampling cv a pts = loop cv a pts (initial (open_source cv a))"

text \<open>
  Lines 69 to 73: the three objects pickled into the corners file, in the order of the
  calls of \<^verbatim>\<open>pickle.dump\<close>.
\<close>

definition dump_corners :: "args \<Rightarrow> 'img state \<Rightarrow> (string \<times> pickled list) option" where
  "dump_corners a st =
     (case corners_f a of
        None \<Rightarrow> None
      | Some path \<Rightarrow>
          Some (path, [PImgPoints (img_points st), PObjPoints (obj_points st), PSize (w st, h st)]))"

text \<open>
  Lines 81 to 99: the solver is called on the accumulated lists and the size \<^verbatim>\<open>(w, h)\<close>;
  its result is printed and written to the output file.
\<close>

definition solve :: "'img cv2 \<Rightarrow> args \<Rightarrow> 'img state \<Rightarrow> run" where
  "solve cv a st =
     (case calibrateCamera cv (obj_points st) (img_points st) (w st, h st) of
        Inl e \<Rightarrow>
          \<lparr>printed = stdout st @ [Calibrating], corners_file = dump_corners a st,
           output_file = None, raised = Some e\<rparr>
      | Inr cal \<Rightarrow>
          \<lparr>printed = stdout st @ [Calibrating, Report cal], corners_file = dump_corners a st,
           output_file = Some (output_arg a, cal), raised = None\<rparr>)"

text \<open>
  \<^verbatim>\<open>main\<close>. An exception anywhere ends the run; what was printed before it stays
  printed.
\<close>

definition main :: "'img cv2 \<Rightarrow> args \<Rightarrow> run" where
  "main cv a =
     (case pattern_points (pattern_size a) of
        Inl e \<Rightarrow> \<lparr>printed = [], corners_file = None, output_file = None, raised = Some e\<rparr>
      | Inr pts \<Rightarrow>
          (case sampling cv a pts of
             (st, Some e) \<Rightarrow>
               \<lparr>printed = stdout st, corners_file = None, output_file = None, raised = Some e\<rparr>
           | (st, None) \<Rightarrow> solve cv a st))"


text \<open>
  The states in which a pass through the body starts: the initial one, and every state a
  pass ends in without \<^verbatim>\<open>break\<close> or exception.
\<close>

inductive loop_head :: "'img cv2 \<Rightarrow> args \<Rightarrow> point3 list \<Rightarrow> 'img state \<Rightarrow> bool"
  for cv :: "'img cv2" and a :: args and pts :: "point3 list" where
  start: "loop_head cv a pts (initial (open_source cv a))"
| pass: "loop_head cv a pts st \<Longrightarrow> iteration cv a pts st = Continue st' \<Longrightarrow> loop_head cv a pts st'"

subsection \<open>Vocabulary of the claims\<close>

text \<open>The state a pass ends in, and the exception it ends with, if any.\<close>

fun state_of :: "'img flow \<Rightarrow> 'img state" where
  "state_of (Continue st) = st"
| "state_of (Break st) = st"
| "state_of (Raise e st) = st"

fun exception_of :: "'img flow \<Rightarrow> error option" where
  "exception_of (Raise e st) = Some e"
| "exception_of fl = None"








text \<open>
  What the program relies on when it reshapes the corners of a found board: the detector
  returns, and the refinement keeps, as many corners as the pattern has points.
\<close>

definition detector_contract :: "'img cv2 \<Rightarrow> int \<times> int \<Rightarrow> bool" where
  "detector_contract cv ps \<longleftrightarrow>
     (\<forall>img cs. findChessboardCorners cv img ps = Inr (True, cs) \<longrightarrow>
        int (length (cornerSubPix cv img cs)) = fst ps * snd ps)"

text \<open>
  The bookkeeping of the accepted views: both lists are as long as the counter says, and
  every entry of the object-point list is the table \<open>pts\<close>.
\<close>

definition counted :: "'img cv2 \<Rightarrow> args \<Rightarrow> point3 list \<Rightarrow> 'img state \<Rightarrow> bool" where
  "counted cv a pts st \<longleftrightarrow>
     length (obj_points st) = used_frames st \<and> length (img_points st) = used_frames st \<and>
     (\<forall>v\<in>set (obj_points st). v = pts) \<and>
     (detector_contract cv (pattern_size a) \<longrightarrow>
        (\<forall>v\<in>set (img_points st). int (length v) = fst (pattern_size a) * snd (pattern_size a)))"





subsection \<open>A concrete world\<close>

text \<open>
  A world to run the program in: a picture is its height, its width and whether it shows
  the board. The video has 100 frames, with the board on every 40th. The detector refuses patterns that are not larger than 2 in both directions,
  as OpenCV's does, and otherwise returns a grid of the asked size when the board is
  there; the solver refuses an empty list of views and otherwise puts the principal point
  in the middle of the image whose size it is given.
\<close>

type_synonym picture = "nat \<times> nat \<times> bool"

definition pinhole :: "nat \<times> nat \<Rightarrow> calibration" where
  "pinhole wh =
     \<lparr>rms = 0,
      camera_matrix = [[800, 0, real (fst wh) / 2], [0, 800, real (snd wh) / 2], [0, 0, 1]],
      dist_coefs = [[0, 0, 0, 0, 0]]\<rparr>"

definition reel :: "picture list" where
  "reel = map (\<lambda>i. (480, 640, i mod 40 = 0)) [0..<100]"

definition grid :: "int \<times> int \<Rightarrow> point2 list" where
  "grid ps = concat (map (\<lambda>row. map (\<lambda>col. (100 + 10 * real col, 50 + 10 * real row)) [0..<nat (fst ps)]) [0..<nat (snd ps)])"

definition studio :: "picture cv2" where
  "studio =
     \<lparr>glob = (\<lambda>mask. if mask = ''shots/*.png'' then [''shots/a.png'', ''shots/b.png'', ''shots/c.png'']
                      else if mask = ''pair/*.png'' then [''shots/a.png'', ''shots/b.png'']
                      else []),
      imread = (\<lambda>path. if path = ''shots/a.png'' then Some (480, 640, True)
                        else if path = ''shots/b.png'' then Some (720, 1280, True)
                        else if path = ''shots/c.png'' then Some (240, 320, False)
                        else None),
      video = (\<lambda>path. if path = ''board.avi'' then reel else []),
      cvtColor = (\<lambda>img. img),
      shape = (\<lambda>img. (fst img, fst (snd img))),
      findChessboardCorners = (\<lambda>img ps. if fst ps \<le> 2 \<or> snd ps \<le> 2 then Inl Cv2Error
                                 else Inr (snd (snd img), if snd (snd img) then grid ps else [])),
      cornerSubPix = (\<lambda>img cs. cs),
      calibrateCamera = (\<lambda>objs imgs wh. if objs = [] then Inl Cv2Error else Inr (pinhole wh))\<rparr>"


definition board33 :: "point3 list" where
  "board33 = [(0, 0, 0), (1, 0, 0), (2, 0, 0), (0, 1, 0), (1, 1, 0), (2, 1, 0), (0, 2, 0), (1, 2, 0), (2, 2, 0)]"

definition shots :: args where
  "shots = \<lparr>input_arg = ''shots/*.png'', output_arg = ''out.yaml'', pattern_size = (3, 3),
      debug_dir = None, corners_f = None, framestep = 20, max_frames = None\<rparr>"

definition pair :: args where
  "pair = \<lparr>input_arg = ''pair/*.png'', output_arg = ''out.yaml'', pattern_size = (3, 3),
      debug_dir = None, corners_f = None, framestep = 20, max_frames = None\<rparr>"

definition solved :: calibration where
  "solved = pinhole (1280, 720)"








section \<open>Basic facts\<close>

subsection \<open>Where the loop stands\<close>











subsection \<open>The last pass of a run\<close>

lemma loop_from_head:
  "loop_head cv a pts st \<Longrightarrow>
   \<exists>s. loop_head cv a pts s \<and> (\<forall>s'. iteration cv a pts s \<noteq> Continue s') \<and>
       loop cv a pts st = (state_of (iteration cv a pts s), exception_of (iteration cv a pts s))"
proof (induction cv a pts st rule: loop.induct)
  case (1 cv a pts st)
  show ?case
  proof (cases "iteration cv a pts st")
    case (Continue st')
    then have "loop_head cv a pts st'"
      using "1.prems" by (rule loop_head.pass[rotated])
    from "1.IH"[OF Continue this] Continue show ?thesis
      by (simp add: loop.simps[of cv a pts st])
  next
    case (Break st')
    then show ?thesis
      using "1.prems" by (intro exI[of _ st]) (simp add: loop.simps[of cv a pts st])
  next
    case (Raise e st')
    then show ?thesis
      using "1.prems" by (intro exI[of _ st]) (simp add: loop.simps[of cv a pts st])
  qed
qed

lemma sampling_last_pass:
  obtains s where "loop_head cv a pts s" and "\<And>s'. iteration cv a pts s \<noteq> Continue s'"
    and "sampling cv a pts = (state_of (iteration cv a pts s), exception_of (iteration cv a pts s))"
  using loop_from_head[OF loop_head.start, of cv a pts] unfolding sampling_def by blast







subsection \<open>Facts of the concrete world\<close>





subsection \<open>The table of object points\<close>

lemma length_rows:
  "length (concat (map (\<lambda>row. map (f row) [0..<c]) [0..<r])) = r * c"
  by (induction r) simp_all

lemma nth_rows:
  "col < c \<Longrightarrow> row < r \<Longrightarrow>
   concat (map (\<lambda>row. map (f row) [0..<c]) [0..<r]) ! (row * c + col) = f row col"
proof (induction r)
  case 0
  then show ?case by simp
next
  case (Suc r)
  show ?case
  proof (cases "row < r")
    case True
    then have "row * c + col < r * c"
      using Suc.prems(1)
      by (metis add.commute add_less_cancel_left less_le_trans mult_Suc mult_le_mono1 Suc_leI)
    then show ?thesis
      using Suc.IH[OF Suc.prems(1) True] by (simp add: nth_append length_rows)
  next
    case False
    then have "row = r" using Suc.prems(2) by simp
    then show ?thesis
      using Suc.prems(1) by (simp add: nth_append length_rows)
  qed
qed

lemma pattern_points_ok:
  assumes "0 \<le> fst ps" "0 \<le> snd ps"
  shows "\<exists>pts. pattern_points ps = Inr pts \<and> int (length pts) = fst ps * snd ps \<and>
     (\<forall>col row. 0 \<le> col \<and> col < fst ps \<and> 0 \<le> row \<and> row < snd ps \<longrightarrow>
        pts ! nat (row * fst ps + col) = (real_of_int col, real_of_int row, 0)) \<and>
     (\<forall>p\<in>set pts. snd (snd p) = 0)"
proof -
  let ?c = "nat (fst ps)" and ?r = "nat (snd ps)"
  let ?pts = "concat (map (\<lambda>row. map (\<lambda>col. (real col, real row, 0::real)) [0..<?c]) [0..<?r])"
  have eq: "pattern_points ps = Inr ?pts"
    using assms by (simp add: pattern_points_def)
  have len: "int (length ?pts) = fst ps * snd ps"
    using assms by (simp add: length_rows mult.commute)
  have nth: "?pts ! nat (row * fst ps + col) = (real_of_int col, real_of_int row, 0)"
    if "0 \<le> col" "col < fst ps" "0 \<le> row" "row < snd ps" for col row
  proof -
    have "nat (row * fst ps + col) = nat row * ?c + nat col"
      using that assms by (simp add: nat_add_distrib nat_mult_distrib)
    moreover have "nat col < ?c" "nat row < ?r" using that by simp_all
    ultimately show ?thesis
      using nth_rows[of "nat col" ?c "nat row" ?r "\<lambda>row col. (real col, real row, 0::real)"] that
      by simp
  qed
  have z: "\<forall>p\<in>set ?pts. snd (snd p) = 0"
    by auto
  show ?thesis
    using eq len nth z by blast
qed


subsection \<open>The bookkeeping of the accepted views\<close>

lemma search_counted:
  "counted cv a pts st \<Longrightarrow> counted cv a pts (state_of (search cv a pts img st))"
  by (auto simp: counted_def search_def Let_def write_debug_def detector_contract_def
      split: option.splits sum.splits)

lemma iteration_counted:
  "counted cv a pts st \<Longrightarrow> counted cv a pts (state_of (iteration cv a pts st))"
proof -
  assume c: "counted cv a pts st"
  have *: "counted cv a pts (st\<lparr>frame := k\<rparr>)" "counted cv a pts (st\<lparr>frame := k, source := src\<rparr>)" for k src
    using c by (simp_all add: counted_def)
  show ?thesis
    using * by (auto simp: iteration_def Let_def intro!: search_counted
        split: source.splits list.splits sum.splits)
qed

lemma loop_head_counted: "loop_head cv a pts st \<Longrightarrow> counted cv a pts st"
proof (induction rule: loop_head.induct)
  case start
  show ?case by (simp add: counted_def initial_def)
next
  case (pass st st')
  from iteration_counted[OF pass.IH] pass.hyps(2) show ?case by simp
qed

lemma sampling_counted: "counted cv a pts (fst (sampling cv a pts))"
proof -
  obtain s where "loop_head cv a pts s"
    and "sampling cv a pts = (state_of (iteration cv a pts s), exception_of (iteration cv a pts s))"
    using sampling_last_pass[of cv a pts] by metis
  then show ?thesis
    using iteration_counted[OF loop_head_counted] by simp
qed

lemma pass_effect:
  "(used_frames (state_of (iteration cv a pts st)) = used_frames st \<and>
    obj_points (state_of (iteration cv a pts st)) = obj_points st \<and>
    img_points (state_of (iteration cv a pts st)) = img_points st) \<or>
   (used_frames (state_of (iteration cv a pts st)) = Suc (used_frames st) \<and>
    obj_points (state_of (iteration cv a pts st)) = obj_points st @ [pts] \<and>
    (\<exists>v. img_points (state_of (iteration cv a pts st)) = img_points st @ [v]))"
  by (auto simp: iteration_def search_def Let_def write_debug_def
      split: source.splits list.splits sum.splits option.splits)

subsection \<open>Runs in the concrete world\<close>

lemma pattern_points_33: "pattern_points (3, 3) = Inr board33"
  by (simp add: pattern_points_def board33_def upt_rec)

lemmas run_simps = sampling_def loop.simps open_source_def initial_def iteration_def search_def
  getitem_def write_debug_def Let_def

lemma shots_run:
  "sampling studio shots pts =
     (\<lparr>source = Glob [''shots/a.png'', ''shots/b.png'', ''shots/c.png''],
       obj_points = [pts, pts], img_points = [grid (3, 3), grid (3, 3)], h = 240, w = 320,
       frame = 3, used_frames = 2,
       stdout = [Searching 0, Ok, Searching 1, Ok, Searching 2, NotFound],
       debug_images = []\<rparr>, None)"
  by (simp add: run_simps studio_def shots_def)

lemma studio_contract: "0 \<le> fst ps \<Longrightarrow> 0 \<le> snd ps \<Longrightarrow> detector_contract studio ps"
  by (auto simp: detector_contract_def studio_def grid_def length_rows mult.commute split: if_splits)

lemma pair_run:
  "sampling studio pair pts =
     (\<lparr>source = Glob [''shots/a.png'', ''shots/b.png''],
       obj_points = [pts, pts], img_points = [grid (3, 3), grid (3, 3)], h = 720, w = 1280,
       frame = 2, used_frames = 2,
       stdout = [Searching 0, Ok, Searching 1, Ok],
       debug_images = []\<rparr>, None)"
  by (simp add: run_simps studio_def pair_def)

lemma pair_main:
  "main studio pair =
     \<lparr>printed = [Searching 0, Ok, Searching 1, Ok, Calibrating, Report solved],
      corners_file = None, output_file = Some (''out.yaml'', solved), raised = None\<rparr>"
proof -
  have "pattern_points (pattern_size pair) = Inr board33"
    by (simp add: pair_def pattern_points_33)
  then have m: "main studio pair = solve studio pair (fst (sampling studio pair board33))"
    by (simp add: main_def pair_run)
  show ?thesis
    unfolding m pair_run
    by (simp add: solve_def dump_corners_def pair_def studio_def solved_def)
qed

subsection \<open>After the loop\<close>






subsection \<open>The size kept for the solver\<close>





subsection \<open>The maximum of accepted views\<close>






section \<open>The claims\<close>




text \<open>
  Claim C2, as amended. The program compares no sizes. A frame on which the detector
  finds the board is accepted whatever views are stored and whatever size was seen
  before: the pass raises nothing, appends the view, and the size kept for the solver
  becomes the size of this frame.
\<close>

theorem any_size_is_accepted:
  assumes "findChessboardCorners cv (cvtColor cv img) (pattern_size a) = Inr (True, cs)"
    and "search cv a pts (Some img) st = fl"
  shows "exception_of fl = None \<and>
         used_frames (state_of fl) = used_frames st + 1 \<and>
         img_points (state_of fl) = img_points st @ [cornerSubPix cv (cvtColor cv img) cs] \<and>
         obj_points (state_of fl) = obj_points st @ [pts] \<and>
         (h (state_of fl), w (state_of fl)) = shape cv (cvtColor cv img)"
  using assms by (auto simp: search_def Let_def write_debug_def)

theorem any_size_is_accepted_witness:
  "findChessboardCorners studio (cvtColor studio (720, 1280, True)) (pattern_size pair) = Inr (True, grid (3, 3)) \<and>
   (h (fst (loop studio pair board33 (initial (Glob [''shots/a.png''])))),
    w (fst (loop studio pair board33 (initial (Glob [''shots/a.png'']))))) = (480, 640) \<and>
   (h (state_of (search studio pair board33 (Some (720, 1280, True))
        (fst (loop studio pair board33 (initial (Glob [''shots/a.png''])))))),
    w (state_of (search studio pair board33 (Some (720, 1280, True))
        (fst (loop studio pair board33 (initial (Glob [''shots/a.png''])))))))
     = (720, 1280) \<and>
   used_frames (state_of (search studio pair board33 (Some (720, 1280, True))
        (fst (loop studio pair board33 (initial (Glob [''shots/a.png''])))))) = 2"
proof -
  let ?st = "fst (loop studio pair board33 (initial (Glob [''shots/a.png''])))"
  have det: "findChessboardCorners studio (cvtColor studio (720, 1280, True)) (pattern_size pair)
      = Inr (True, grid (3, 3))"
    by (simp add: studio_def pair_def)
  have st: "h ?st = 480 \<and> w ?st = 640 \<and> used_frames ?st = 1"
    by (simp add: run_simps studio_def pair_def)
  from any_size_is_accepted[OF det refl, of board33 ?st] det st
  show ?thesis by (simp add: studio_def)
qed

text \<open>
  The claim as stated fails: two files of different sizes are both accepted, no exception
  ends the run, and the solver is reached with both views.
\<close>

theorem dimension_guard_counterexample:
  "imread studio ''shots/a.png'' = Some (480, 640, True) \<and>
   imread studio ''shots/b.png'' = Some (720, 1280, True) \<and>
   shape studio (cvtColor studio (480, 640, True)) \<noteq> shape studio (cvtColor studio (720, 1280, True)) \<and>
   sampling studio pair board33 =
     (\<lparr>source = Glob [''shots/a.png'', ''shots/b.png''],
       obj_points = [board33, board33], img_points = [grid (3, 3), grid (3, 3)], h = 720, w = 1280,
       frame = 2, used_frames = 2, stdout = [Searching 0, Ok, Searching 1, Ok],
       debug_images = []\<rparr>, None) \<and>
   raised (main studio pair) = None"
  by (simp add: pair_run pair_main) (simp add: studio_def)
















text \<open>
  Claim C9. Whenever a pass through the loop body starts, and when the loop has ended,
  the object-point list and the image-point list have the same length, the value of
  \<^verbatim>\<open>used_frames\<close>. Every entry of the object-point list has \<open>columns * rows\<close>
  points, and so has every entry of the image-point list when the detector returns that
  many corners for a found board. A pass either leaves the counter and both lists alone
  or adds one to the counter and one entry to each list.
\<close>

theorem lists_in_step:
  assumes "loop_head cv a pts st \<or> st = fst (sampling cv a pts)"
    and "pattern_points (pattern_size a) = Inr pts"
  shows "length (obj_points st) = length (img_points st) \<and>
         length (obj_points st) = used_frames st \<and>
         (\<forall>v\<in>set (obj_points st). int (length v) = fst (pattern_size a) * snd (pattern_size a)) \<and>
         (detector_contract cv (pattern_size a) \<longrightarrow>
            (\<forall>v\<in>set (img_points st). int (length v) = fst (pattern_size a) * snd (pattern_size a))) \<and>
         ((used_frames (state_of (iteration cv a pts st)) = used_frames st \<and>
           obj_points (state_of (iteration cv a pts st)) = obj_points st \<and>
           img_points (state_of (iteration cv a pts st)) = img_points st) \<or>
          (used_frames (state_of (iteration cv a pts st)) = Suc (used_frames st) \<and>
           obj_points (state_of (iteration cv a pts st)) = obj_points st @ [pts] \<and>
           (\<exists>v. img_points (state_of (iteration cv a pts st)) = img_points st @ [v])))"
proof -
  have c: "counted cv a pts st"
    using assms(1) loop_head_counted sampling_counted by blast
  have nonneg: "0 \<le> fst (pattern_size a)" "0 \<le> snd (pattern_size a)"
    using assms(2) by (auto simp: pattern_points_def split: if_splits)
  from pattern_points_ok[OF this] assms(2)
  have "int (length pts) = fst (pattern_size a) * snd (pattern_size a)" by auto
  with c pass_effect[of cv a pts st] show ?thesis
    unfolding counted_def by auto
qed

theorem lists_in_step_witness:
  "pattern_points (pattern_size shots) = Inr board33 \<and>
   detector_contract studio (pattern_size shots) \<and>
   length (obj_points (fst (sampling studio shots board33))) = 2 \<and>
   length (img_points (fst (sampling studio shots board33))) = 2 \<and>
   used_frames (fst (sampling studio shots board33)) = 2 \<and>
   list_all (\<lambda>v. length v = 9) (img_points (fst (sampling studio shots board33)))"
proof -
  let ?st = "fst (sampling studio shots board33)"
  have ps: "pattern_size shots = (3, 3)" by (simp add: shots_def)
  have pp: "pattern_points (pattern_size shots) = Inr board33"
    by (simp add: ps pattern_points_33)
  have dc: "detector_contract studio (pattern_size shots)"
    by (rule studio_contract) (simp_all add: ps)
  from lists_in_step[OF disjI2[OF refl] pp, of studio] dc
  have "length (obj_points ?st) = length (img_points ?st)"
    "length (obj_points ?st) = used_frames ?st"
    "\<forall>v\<in>set (img_points ?st). int (length v) = 3 * 3"
    by (simp_all add: ps)
  moreover have "used_frames ?st = 2" by (simp add: shots_run)
  ultimately show ?thesis using pp dc by (auto simp: list_all_iff)
qed



end
